theory Spec2Isabelle
  imports Complex_Main "HOL-Library.AList" "HOL-Library.Multiset"
begin

section \<open>Python exceptions\<close>

text \<open>Every \<^verbatim>\<open>raise\<close>, failed \<^verbatim>\<open>assert\<close> and library error of the source is a
  value of this type; a fallible operation returns \<open>exc + 'a\<close> with \<open>Inl\<close> the exception.\<close>

datatype exc = AssertionError | IndexError | ValueError | KeyError
  | FileNotFoundError | FileExistsError | IsADirectoryError | NotADirectoryError
  | UnboundLocalError | RuntimeError | TypeError

section \<open>Arrays and images (\<^verbatim>\<open>numpy\<close>, \<^verbatim>\<open>ants.ANTsImage\<close>)\<close>

text \<open>A three-dimensional \<^verbatim>\<open>numpy\<close> array: its shape and its elements, axis 0 outermost.
  The shape is kept beside the nested list because an array with an empty axis still has
  a shape.\<close>

record 'a ndarray =
  shape :: "nat list"
  elems :: "'a list list list"

definition tabulate3 :: "nat \<Rightarrow> nat \<Rightarrow> nat \<Rightarrow> (nat \<Rightarrow> nat \<Rightarrow> nat \<Rightarrow> 'a) \<Rightarrow> 'a list list list" where
  "tabulate3 n0 n1 n2 f =
     map (\<lambda>i. map (\<lambda>j. map (\<lambda>k. f i j k) [0..<n2]) [0..<n1]) [0..<n0]"

definition wf_ndarray :: "'a ndarray \<Rightarrow> bool" where
  "wf_ndarray a =
     (length (shape a) = 3 \<and> length (elems a) = shape a ! 0
      \<and> list_all (\<lambda>r. length r = shape a ! 1 \<and> list_all (\<lambda>c. length c = shape a ! 2) r) (elems a))"

text \<open>\<^verbatim>\<open>xs.index(m)\<close> for an element that occurs in \<open>xs\<close>.\<close>

definition pos :: "nat list \<Rightarrow> nat \<Rightarrow> nat" where
  "pos xs m = length (takeWhile (\<lambda>x. x \<noteq> m) xs)"

text \<open>\<^verbatim>\<open>np.argsort\<close>: the indices that sort the keys, ties in index order (numpy sorts
  short arrays by insertion).\<close>

definition argsort :: "'k::linorder list \<Rightarrow> nat list" where
  "argsort xs = map snd (sort_key fst (zip xs [0..<length xs]))"

text \<open>\<^verbatim>\<open>np.transpose(a, axes)\<close>: axis \<open>d\<close> of the result is axis \<open>axes[d]\<close> of \<open>a\<close>, so the
  element at \<open>[i0, i1, i2]\<close> of the result is the element of \<open>a\<close> whose index along axis
  \<open>axes[d]\<close> is \<open>i\<^sub>d\<close>. numpy raises ValueError when \<open>axes\<close> is not a permutation of the
  array's axes.\<close>

definition np_transpose :: "'a ndarray \<Rightarrow> nat list \<Rightarrow> exc + 'a ndarray" where
  "np_transpose a axes =
     (if sort axes = [0..<length (shape a)] \<and> length (shape a) = 3 then
        Inr \<lparr> shape = map (\<lambda>d. shape a ! d) axes,
              elems = tabulate3 (shape a ! (axes ! 0)) (shape a ! (axes ! 1)) (shape a ! (axes ! 2))
                (\<lambda>i0 i1 i2. elems a ! ([i0, i1, i2] ! pos axes 0)
                                     ! ([i0, i1, i2] ! pos axes 1)
                                     ! ([i0, i1, i2] ! pos axes 2)) \<rparr>
      else Inl ValueError)"

text \<open>An \<^verbatim>\<open>ants.ANTsImage\<close>: the array \<^verbatim>\<open>image.numpy()\<close> returns and the physical metadata.
  \<^verbatim>\<open>ants.from_numpy(data, origin, spacing, direction, has_components)\<close> is the record
  constructor.\<close>

record 'a image =
  numpy :: "'a ndarray"
  origin :: "real list"
  spacing :: "real list"
  direction :: "real list list"
  has_components :: bool

definition wf_image :: "'a image \<Rightarrow> bool" where
  "wf_image img =
     (wf_ndarray (numpy img) \<and> length (origin img) = 3 \<and> length (spacing img) = 3
      \<and> length (direction img) = 3)"

subsection \<open>\<^verbatim>\<open>bifrost/util.py\<close>\<close>

text \<open>\<^verbatim>\<open>update_image_array(image, updated)\<close>: the second assertion compares the shapes
  (the first, on the type of \<open>image\<close>, holds by typing).\<close>

definition update_image_array :: "'a image \<Rightarrow> 'a ndarray \<Rightarrow> exc + 'a image" where
  "update_image_array img updated =
     (if shape (numpy img) = shape updated
      then Inr \<lparr> numpy = updated, origin = origin img, spacing = spacing img,
                 direction = direction img, has_components = has_components img \<rparr>
      else Inl AssertionError)"

text \<open>The local helper \<^verbatim>\<open>_permute\<close> of \<^verbatim>\<open>transpose_image\<close>:
  \<^verbatim>\<open>[arr[idx] for idx in transposition]\<close>, IndexError out of range.\<close>

definition permute :: "nat list \<Rightarrow> 'b list \<Rightarrow> exc + 'b list" where
  "permute transposition arr =
     (if list_all (\<lambda>idx. idx < length arr) transposition
      then Inr (map (\<lambda>idx. arr ! idx) transposition) else Inl IndexError)"

definition transpose_image :: "'a image \<Rightarrow> nat list \<Rightarrow> exc + 'a image" where
  "transpose_image img transposition =
     (if sort transposition = [0..<length transposition] then
        (case np_transpose (numpy img) transposition of
           Inl e \<Rightarrow> Inl e
         | Inr image_arr \<Rightarrow>
            (case permute transposition (origin img) of
               Inl e \<Rightarrow> Inl e
             | Inr origin' \<Rightarrow>
                (case permute transposition (spacing img) of
                   Inl e \<Rightarrow> Inl e
                 | Inr spacing' \<Rightarrow>
                    (case permute transposition (direction img) of
                       Inl e \<Rightarrow> Inl e
                     | Inr direction' \<Rightarrow>
                        Inr \<lparr> numpy = image_arr, origin = origin', spacing = spacing',
                              direction = direction',
                              has_components = has_components img \<rparr>))))
      else Inl AssertionError)"

text \<open>A small volume of shape (1, 2, 3), used to instantiate the theorems below.\<close>

definition ex_img :: "nat image" where
  "ex_img = \<lparr> numpy = \<lparr> shape = [1, 2, 3], elems = [[[1, 2, 3], [4, 5, 6]]] \<rparr>,
              origin = [0, 1, 2], spacing = [1, 2, 4],
              direction = [[1, 0, 0], [0, 1, 0], [0, 0, 1]], has_components = False \<rparr>"

section \<open>The filesystem and the environment\<close>

type_synonym path = string

record transform =
  parameters :: "real list"
  fixed_parameters :: "real list"

text \<open>What a file holds: an image volume (\<^verbatim>\<open>.nii\<close>, \<^verbatim>\<open>.nii.gz\<close>), an affine transform
  (\<^verbatim>\<open>.mat\<close>), the remains of a write that failed part-way, or anything else.\<close>

datatype filedata = Nifti "real image" | Mat transform | Truncated | Other

datatype node = Dir | File filedata | Symlink path

text \<open>The directory tree as an association list from the path strings the program
  builds to nodes, in directory order (the order \<^verbatim>\<open>glob\<close> and \<^verbatim>\<open>os.listdir\<close> report).
  The working directory (the empty path) and the root always exist.\<close>

type_synonym filesystem = "(path \<times> node) list"

definition is_root :: "path \<Rightarrow> bool" where
  "is_root p = list_all (\<lambda>c. c = CHR ''/'') p"

definition lookup :: "filesystem \<Rightarrow> path \<Rightarrow> node option" where
  "lookup fs p = (if is_root p then Some Dir else map_of fs p)"

definition dirname :: "path \<Rightarrow> path" where
  "dirname p =
     (let head = rev (dropWhile (\<lambda>c. c \<noteq> CHR ''/'') (rev p))
      in if list_all (\<lambda>c. c = CHR ''/'') head then head
         else rev (dropWhile (\<lambda>c. c = CHR ''/'') (rev head)))"

definition basename :: "path \<Rightarrow> path" where
  "basename p = rev (takeWhile (\<lambda>c. c \<noteq> CHR ''/'') (rev p))"

text \<open>Following symbolic links, at most 40 of them (ELOOP beyond); a relative target is
  taken from the directory of the link. Links in the middle of a path are not followed:
  paths are the strings the program builds.\<close>

fun follow :: "nat \<Rightarrow> filesystem \<Rightarrow> path \<Rightarrow> path option" where
  "follow 0 fs p = None"
| "follow (Suc n) fs p =
     (case lookup fs p of
        Some (Symlink t) \<Rightarrow>
          follow n fs (if t \<noteq> [] \<and> hd t = CHR ''/'' then t
                       else if dirname p = [] then t else dirname p @ ''/'' @ t)
      | _ \<Rightarrow> Some p)"

definition realpath :: "filesystem \<Rightarrow> path \<Rightarrow> path option" where
  "realpath fs p = follow 41 fs p"

definition stat :: "filesystem \<Rightarrow> path \<Rightarrow> node option" where
  "stat fs p = (case realpath fs p of None \<Rightarrow> None | Some q \<Rightarrow> lookup fs q)"

definition path_exists :: "filesystem \<Rightarrow> path \<Rightarrow> bool" where
  "path_exists fs p = (stat fs p \<noteq> None)"

definition isdir :: "filesystem \<Rightarrow> path \<Rightarrow> bool" where
  "isdir fs p = (stat fs p = Some Dir)"

text \<open>The prefixes of a path that end before a separator, then the path itself:
  the directories \<^verbatim>\<open>os.makedirs\<close> walks.\<close>

definition dir_chain :: "path \<Rightarrow> path list" where
  "dir_chain p =
     map (\<lambda>i. take i p)
       (filter (\<lambda>i. p ! i = CHR ''/'' \<and> p ! (i - 1) \<noteq> CHR ''/'') [1..<length p]) @ [p]"

fun mkdirs :: "path list \<Rightarrow> filesystem \<Rightarrow> exc + filesystem" where
  "mkdirs [] fs = Inr fs"
| "mkdirs (d # ds) fs =
     (case stat fs d of
        None \<Rightarrow> mkdirs ds (AList.update d Dir fs)
      | Some Dir \<Rightarrow> mkdirs ds fs
      | Some _ \<Rightarrow> Inl (if ds = [] then FileExistsError else NotADirectoryError))"

text \<open>\<^verbatim>\<open>os.makedirs(name, exist_ok=True)\<close>.\<close>

definition makedirs :: "path \<Rightarrow> filesystem \<Rightarrow> exc + filesystem" where
  "makedirs name fs = mkdirs (dir_chain name) fs"

definition under :: "path \<Rightarrow> path \<Rightarrow> bool" where
  "under d p = (take (length d + 1) p = d @ ''/'')"

text \<open>\<^verbatim>\<open>shutil.rmtree(path)\<close>: the directory and everything below it.\<close>

definition rmtree :: "path \<Rightarrow> filesystem \<Rightarrow> exc + filesystem" where
  "rmtree d fs =
     (case lookup fs d of
        None \<Rightarrow> Inl FileNotFoundError
      | Some Dir \<Rightarrow> Inr (filter (\<lambda>(p, n). p \<noteq> d \<and> \<not> under d p) fs)
      | Some _ \<Rightarrow> Inl NotADirectoryError)"

text \<open>\<^verbatim>\<open>os.remove(path)\<close>.\<close>

definition os_remove :: "path \<Rightarrow> filesystem \<Rightarrow> exc + filesystem" where
  "os_remove p fs =
     (case lookup fs p of
        None \<Rightarrow> Inl FileNotFoundError
      | Some Dir \<Rightarrow> Inl IsADirectoryError
      | Some _ \<Rightarrow> Inr (AList.delete p fs))"

text \<open>\<^verbatim>\<open>glob(f"{d}/*{suffix}")\<close>: the entries directly in \<open>d\<close> whose name ends with the
  suffix; \<^verbatim>\<open>*\<close> does not match a leading dot.\<close>

definition glob :: "filesystem \<Rightarrow> path \<Rightarrow> string \<Rightarrow> path list" where
  "glob fs d suffix =
     filter (\<lambda>p. under d p \<and>
                (let name = drop (length d + 1) p
                 in CHR ''/'' \<notin> set name \<and> name \<noteq> [] \<and> hd name \<noteq> CHR ''.''
                    \<and> length suffix \<le> length name
                    \<and> drop (length name - length suffix) name = suffix))
       (map fst fs)"

text \<open>\<^verbatim>\<open>os.listdir(d)\<close>: the names directly in \<open>d\<close>.\<close>

definition listdir :: "filesystem \<Rightarrow> path \<Rightarrow> string list" where
  "listdir fs d =
     map (\<lambda>p. drop (length d + 1) p)
       (filter (\<lambda>p. under d p \<and> CHR ''/'' \<notin> set (drop (length d + 1) p)
                      \<and> drop (length d + 1) p \<noteq> []) (map fst fs))"

subsection \<open>The world: files, the environment's behaviour, the log\<close>

text \<open>What the environment does at one call of a fallible external operation (reading or
  writing an image file, copying a file, running the registration engine): it succeeds,
  it raises, or (a write) it raises after leaving a truncated file behind. The \<open>script\<close> of
  a world lists the outcomes of the calls still to come, in order; once it is
  exhausted every call succeeds.\<close>

datatype outcome = Succeeds | Raises | RaisesPartial

datatype level = DEBUG | INFO | WARNING | ERROR | CRITICAL

record world =
  files :: filesystem
  script :: "outcome list"
  logged :: "(level \<times> string) list"

definition next_outcome :: "world \<Rightarrow> outcome \<times> world" where
  "next_outcome w = (case script w of [] \<Rightarrow> (Succeeds, w) | x # xs \<Rightarrow> (x, w\<lparr>script := xs\<rparr>))"

text \<open>A log record, most recent first.\<close>

definition logger :: "level \<Rightarrow> string \<Rightarrow> world \<Rightarrow> world" where
  "logger lvl msg w = w\<lparr>logged := (lvl, msg) # logged w\<rparr>"

text \<open>\<^verbatim>\<open>ants.image_read(path)\<close>.\<close>

definition image_read :: "path \<Rightarrow> world \<Rightarrow> (exc + real image) \<times> world" where
  "image_read p w =
     (case next_outcome w of
        (Succeeds, w') \<Rightarrow>
          (case stat (files w') p of
             Some (File (Nifti img)) \<Rightarrow> (Inr img, w')
           | None \<Rightarrow> (Inl ValueError, w')
           | _ \<Rightarrow> (Inl RuntimeError, w'))
      | (_, w') \<Rightarrow> (Inl RuntimeError, w'))"

text \<open>Writing a file (\<^verbatim>\<open>ants.image_write\<close>, \<^verbatim>\<open>shutil.copy\<close> of a file's data): the
  directory must exist and the target must not be a directory.\<close>

definition write_file :: "path \<Rightarrow> filedata \<Rightarrow> world \<Rightarrow> (exc + unit) \<times> world" where
  "write_file p d w =
     (case next_outcome w of
        (out, w') \<Rightarrow>
          (case realpath (files w') p of
             None \<Rightarrow> (Inl RuntimeError, w')
           | Some q \<Rightarrow>
               if isdir (files w') q then (Inl RuntimeError, w')
               else if isdir (files w') (dirname q) then
                 (case out of
                    Succeeds \<Rightarrow> (Inr (), w'\<lparr>files := AList.update q (File d) (files w')\<rparr>)
                  | Raises \<Rightarrow> (Inl RuntimeError, w')
                  | RaisesPartial \<Rightarrow>
                      (Inl RuntimeError, w'\<lparr>files := AList.update q (File Truncated) (files w')\<rparr>))
               else (Inl RuntimeError, w')))"

definition image_write :: "real image \<Rightarrow> path \<Rightarrow> world \<Rightarrow> (exc + unit) \<times> world" where
  "image_write img p w = write_file p (Nifti img) w"

subsection \<open>The external engine\<close>

datatype transform_type = Affine | SyN

text \<open>The dictionary \<^verbatim>\<open>ants.registration\<close> returns: the warped moving image and the data
  of the temporary files its \<^verbatim>\<open>fwdtransforms\<close> paths name.\<close>

record registration =
  warpedmovout :: "real image"
  fwdtransforms :: "filedata list"

text \<open>The collaborators outside the repository, as functions of their arguments.\<close>

record engine =
  ants_registration :: "real image \<Rightarrow> real image \<Rightarrow> transform_type \<Rightarrow> registration"
  ants_apply_transforms :: "real image \<Rightarrow> real image \<Rightarrow> filedata \<Rightarrow> real image"
  scipy_legacy :: "real ndarray \<Rightarrow> real ndarray"
  equalize_adapthist :: "real ndarray \<Rightarrow> real ndarray"

definition registration_call ::
  "engine \<Rightarrow> real image \<Rightarrow> real image \<Rightarrow> transform_type \<Rightarrow> world \<Rightarrow> (exc + registration) \<times> world" where
  "registration_call eng fixed moving ty w =
     (case next_outcome w of
        (Succeeds, w') \<Rightarrow> (Inr (ants_registration eng fixed moving ty), w')
      | (_, w') \<Rightarrow> (Inl RuntimeError, w'))"

subsection \<open>Array arithmetic\<close>

text \<open>\<^verbatim>\<open>np.flip(a, axis)\<close>; \<^verbatim>\<open>a[::-1]\<close> is \<open>np_flip a 0\<close>.\<close>

definition np_flip :: "'a ndarray \<Rightarrow> nat \<Rightarrow> exc + 'a ndarray" where
  "np_flip a axis =
     (if axis = 0 then Inr (a\<lparr>elems := rev (elems a)\<rparr>)
      else if axis = 1 then Inr (a\<lparr>elems := map rev (elems a)\<rparr>)
      else if axis = 2 then Inr (a\<lparr>elems := map (map rev) (elems a)\<rparr>)
      else Inl ValueError)"

definition map3 :: "('a \<Rightarrow> 'b) \<Rightarrow> 'a ndarray \<Rightarrow> 'b ndarray" where
  "map3 f a = \<lparr> shape = shape a, elems = map (map (map f)) (elems a) \<rparr>"

text \<open>\<^verbatim>\<open>a += b\<close> on arrays: \<open>b\<close> is broadcast to the shape of \<open>a\<close> (an axis of length 1
  is repeated), ValueError when it cannot be.\<close>

definition np_iadd :: "real ndarray \<Rightarrow> real ndarray \<Rightarrow> exc + real ndarray" where
  "np_iadd a b =
     (if length (shape a) = 3 \<and> length (shape b) = 3
         \<and> list_all (\<lambda>d. shape b ! d = shape a ! d \<or> shape b ! d = 1) [0, 1, 2]
      then Inr \<lparr> shape = shape a,
                 elems = tabulate3 (shape a ! 0) (shape a ! 1) (shape a ! 2)
                   (\<lambda>i j k. elems a ! i ! j ! k
                      + elems b ! (if shape b ! 0 = shape a ! 0 then i else 0)
                                ! (if shape b ! 1 = shape a ! 1 then j else 0)
                                ! (if shape b ! 2 = shape a ! 2 then k else 0)) \<rparr>
      else Inl ValueError)"

subsection \<open>\<^verbatim>\<open>bifrost/cli/build_template.py\<close>: averaging\<close>

text \<open>The loop of \<^verbatim>\<open>__average_images\<close> over \<^verbatim>\<open>img_paths[1:]\<close>.\<close>

fun average_rest :: "path list \<Rightarrow> nat \<Rightarrow> real ndarray \<Rightarrow> world \<Rightarrow> (exc + real ndarray) \<times> world" where
  "average_rest [] n avg_img w = (Inr avg_img, w)"
| "average_rest (img_path # rest) n avg_img w =
     (case image_read img_path w of
        (Inl e, w') \<Rightarrow> (Inl e, w')
      | (Inr img, w') \<Rightarrow>
          (case np_iadd avg_img (map3 (\<lambda>x. x / real n) (numpy img)) of
             Inl e \<Rightarrow> (Inl e, w')
           | Inr avg_img' \<Rightarrow> average_rest rest n avg_img' w'))"

text \<open>\<^verbatim>\<open>__average_images(pattern)\<close>, the pattern being \<^verbatim>\<open>f"{d}/*{suffix}"\<close>.\<close>

definition average_images :: "path \<Rightarrow> string \<Rightarrow> world \<Rightarrow> (exc + real image) \<times> world" where
  "average_images d suffix w =
     (let img_paths = glob (files w) d suffix in
      case img_paths of
        [] \<Rightarrow> (Inl IndexError, w)
      | p0 # rest \<Rightarrow>
          (case image_read p0 w of
             (Inl e, w') \<Rightarrow> (Inl e, w')
           | (Inr img_0, w') \<Rightarrow>
               (case average_rest rest (length img_paths)
                       (map3 (\<lambda>x. x / real (length img_paths)) (numpy img_0)) w' of
                  (Inl e, w'') \<Rightarrow> (Inl e, w'')
                | (Inr avg_img, w'') \<Rightarrow> (update_image_array img_0 avg_img, w''))))"

subsection \<open>\<^verbatim>\<open>bifrost/cli/build_template.py\<close>: templates\<close>

text \<open>The arguments of the \<^verbatim>\<open>build_template\<close> command.\<close>

record args =
  input :: "path list"
  "output" :: path
  reference_image :: "path option"
  force :: bool
  preemptible :: bool
  preprocessing :: "string list option"
  affine_steps :: int
  syn_steps :: int
  gradient_step :: real
  mirror :: bool
  keep_intermediates :: bool
  log_file :: "path option"
  verbose :: bool

text \<open>\<^verbatim>\<open>__clean_template(template_path)\<close>: FileNotFoundError is swallowed, any other
  error of \<^verbatim>\<open>os.remove\<close> leaves the handler.\<close>

definition clean_template :: "path \<Rightarrow> world \<Rightarrow> (exc + unit) \<times> world" where
  "clean_template template_path w =
     (case os_remove template_path (files w) of
        Inl FileNotFoundError \<Rightarrow> (Inr (), w)
      | Inl e \<Rightarrow> (Inl e, w)
      | Inr fs' \<Rightarrow> (Inr (), w\<lparr>files := fs'\<rparr>))"

text \<open>\<^verbatim>\<open>ants.apply_transforms(fixed, moving, transform_path)\<close> reads the transform file.\<close>

definition apply_transforms ::
  "engine \<Rightarrow> real image \<Rightarrow> real image \<Rightarrow> path \<Rightarrow> world \<Rightarrow> (exc + real image) \<times> world" where
  "apply_transforms eng fixed moving transform_path w =
     (case next_outcome w of
        (Succeeds, w') \<Rightarrow>
          (case stat (files w') transform_path of
             Some (File Truncated) \<Rightarrow> (Inl RuntimeError, w')
           | Some (File d) \<Rightarrow> (Inr (ants_apply_transforms eng fixed moving d), w')
           | _ \<Rightarrow> (Inl RuntimeError, w'))
      | (_, w') \<Rightarrow> (Inl RuntimeError, w'))"

text \<open>The body of the \<^verbatim>\<open>try\<close> in \<^verbatim>\<open>generate_template\<close>.\<close>

definition generate_template_body ::
  "engine \<Rightarrow> args \<Rightarrow> string \<Rightarrow> path \<Rightarrow> bool \<Rightarrow> world \<Rightarrow> (exc + unit) \<times> world" where
  "generate_template_body eng a step_name output_path transform_avg w =
     (let input_path = output a @ ''/scratch/'' @ step_name in
      if transform_avg then
        (let transform_dir = output a @ ''/scratch/'' @ step_name @ ''_transform'' in
         case (if path_exists (files w) (transform_dir @ ''/transform.nii'')
               then average_images input_path ''.nii''
                      (logger INFO ''%s: found existing inverse average transform'' w)
               else
                 (case makedirs transform_dir (files w) of
                    Inl e \<Rightarrow> (Inl e, w)
                  | Inr fs1 \<Rightarrow>
                     (case average_images input_path ''.nii'' (w\<lparr>files := fs1\<rparr>) of
                        (Inl e, w2) \<Rightarrow> (Inl e, w2)
                      | (Inr avg_img, w2) \<Rightarrow>
                         (case average_images input_path ''.nii.gz'' w2 of
                            (Inl e, w3) \<Rightarrow> (Inl e, w3)
                          | (Inr avg_transform, w3) \<Rightarrow>
                             (case image_write
                                     (avg_transform\<lparr>numpy :=
                                        map3 (\<lambda>x. x * (- 1) * gradient_step a) (numpy avg_transform)\<rparr>)
                                     (transform_dir @ ''/transform.nii'') w3 of
                                (Inl e, w4) \<Rightarrow> (Inl e, w4)
                              | (Inr _, w4) \<Rightarrow> (Inr avg_img, w4)))))) of
           (Inl e, w5) \<Rightarrow> (Inl e, w5)
         | (Inr avg_img, w5) \<Rightarrow>
            (case apply_transforms eng avg_img avg_img (transform_dir @ ''/transform.nii'') w5 of
               (Inl e, w6) \<Rightarrow> (Inl e, w6)
             | (Inr template, w6) \<Rightarrow> image_write template output_path w6))
      else
        (case average_images input_path ''.nii'' w of
           (Inl e, w1) \<Rightarrow> (Inl e, w1)
         | (Inr template, w1) \<Rightarrow> image_write template output_path w1))"

text \<open>The \<^verbatim>\<open>while True\<close> of \<^verbatim>\<open>generate_template\<close>, with its counter \<^verbatim>\<open>__retries\<close>.\<close>

function generate_template_loop ::
  "engine \<Rightarrow> args \<Rightarrow> string \<Rightarrow> path \<Rightarrow> bool \<Rightarrow> nat \<Rightarrow> world \<Rightarrow> (exc + unit) \<times> world" where
  "generate_template_loop eng a step_name output_path transform_avg retries w =
     (case generate_template_body eng a step_name output_path transform_avg w of
        (Inr u, w') \<Rightarrow> (Inr u, w')
      | (Inl e, w') \<Rightarrow>
          if retries < 2 then
            (case clean_template output_path (logger ERROR ''Caught exception, retrying'' w') of
               (Inl e', w'') \<Rightarrow> (Inl e', w'')
             | (Inr _, w'') \<Rightarrow>
                 generate_template_loop eng a step_name output_path transform_avg (retries + 1) w'')
          else (Inl e, logger ERROR ''Caught exception, max retries reached'' w'))"
  by pat_completeness auto
termination
  by (relation "measure (\<lambda>(eng, a, step_name, output_path, transform_avg, retries, w). 2 - retries)") auto

definition endswith :: "string \<Rightarrow> string \<Rightarrow> bool" where
  "endswith s suffix = (length suffix \<le> length s \<and> drop (length s - length suffix) s = suffix)"

definition generate_template ::
  "engine \<Rightarrow> args \<Rightarrow> string \<Rightarrow> path \<Rightarrow> bool \<Rightarrow> world \<Rightarrow> (exc + unit) \<times> world" where
  "generate_template eng a step_name output_path transform_avg w =
     (if endswith output_path ''.nii''
      then generate_template_loop eng a step_name output_path transform_avg 0 w
      else (Inl AssertionError, w))"

subsection \<open>\<^verbatim>\<open>bifrost/cli/build_template.py\<close>: one alignment stage\<close>

definition suffix_of :: "bool \<Rightarrow> string" where
  "suffix_of mirror' = (if mirror' then ''_m'' else [])"

text \<open>\<^verbatim>\<open>__write_step_output\<close>; \<^verbatim>\<open>shutil.copy\<close> copies the data of the first forward
  transform.\<close>

definition write_step_output ::
  "registration \<Rightarrow> string \<Rightarrow> path \<Rightarrow> bool \<Rightarrow> bool \<Rightarrow> world \<Rightarrow> (exc + unit) \<times> world" where
  "write_step_output reg input_name step_dir write_transform mirror' w =
     (case image_write (warpedmovout reg)
             (step_dir @ ''/'' @ input_name @ suffix_of mirror' @ ''.nii'') w of
        (Inl e, w1) \<Rightarrow> (Inl e, w1)
      | (Inr u, w1) \<Rightarrow>
          if write_transform then
            (case fwdtransforms reg of
               [] \<Rightarrow> (Inl IndexError, w1)
             | t # ts \<Rightarrow>
                 write_file (step_dir @ ''/'' @ input_name @ suffix_of mirror' @ ''_t.nii.gz'') t w1)
          else (Inr u, w1))"

text \<open>\<^verbatim>\<open>__step_output_exists\<close>.\<close>

definition step_output_exists :: "string \<Rightarrow> path \<Rightarrow> bool \<Rightarrow> bool \<Rightarrow> filesystem \<Rightarrow> bool" where
  "step_output_exists input_name step_dir write_transform mirror' fs =
     (if \<not> path_exists fs (step_dir @ ''/'' @ input_name @ suffix_of mirror' @ ''.nii'') then False
      else if write_transform
              \<and> \<not> path_exists fs (step_dir @ ''/'' @ input_name @ suffix_of mirror' @ ''_t.nii.gz'')
      then False
      else True)"

text \<open>One \<^verbatim>\<open>try: os.remove(path) except FileNotFoundError: pass\<close>.\<close>

definition remove_if_present :: "path \<Rightarrow> world \<Rightarrow> (exc + unit) \<times> world" where
  "remove_if_present p w =
     (case os_remove p (files w) of
        Inl FileNotFoundError \<Rightarrow> (Inr (), w)
      | Inl e \<Rightarrow> (Inl e, w)
      | Inr fs' \<Rightarrow> (Inr (), w\<lparr>files := fs'\<rparr>))"

text \<open>\<^verbatim>\<open>__clean_step_output(input_name, step_dir, mirror)\<close>: the two files of ONE variant,
  the one its \<open>mirror\<close> argument selects.\<close>

definition clean_step_output :: "string \<Rightarrow> path \<Rightarrow> bool \<Rightarrow> world \<Rightarrow> (exc + unit) \<times> world" where
  "clean_step_output input_name step_dir mirror' w =
     (case remove_if_present (step_dir @ ''/'' @ input_name @ suffix_of mirror' @ ''.nii'') w of
        (Inl e, w1) \<Rightarrow> (Inl e, w1)
      | (Inr u, w1) \<Rightarrow>
          remove_if_present (step_dir @ ''/'' @ input_name @ suffix_of mirror' @ ''_t.nii.gz'') w1)"

text \<open>\<^verbatim>\<open>input_path.split("/")[-1].split(".")[0]\<close>.\<close>

definition name_of :: "path \<Rightarrow> string" where
  "name_of input_path = takeWhile (\<lambda>c. c \<noteq> CHR ''.'') (basename input_path)"

text \<open>The parameters of a stage that its loops do not change.\<close>

record stage =
  step_dir :: path
  step_name :: string
  fixed :: "real image"
  type_of_transform :: transform_type
  transform_avg :: bool
  stage_mirror :: bool

text \<open>The non-mirrored half of the \<^verbatim>\<open>try\<close> body of \<^verbatim>\<open>alignment_iteration\<close>. The local
  variable \<^verbatim>\<open>moving\<close> is \<open>None\<close> while unbound; it is assigned only on the branch that
  processes the item and keeps its value across attempts and items.\<close>

definition attempt_primary ::
  "engine \<Rightarrow> stage \<Rightarrow> path \<Rightarrow> real image option \<Rightarrow> world
     \<Rightarrow> (exc + unit) \<times> real image option \<times> world" where
  "attempt_primary eng st input_path moving w =
     (let input_name = name_of input_path in
      if step_output_exists input_name (step_dir st) (transform_avg st) False (files w)
      then (Inr (), moving, logger INFO ''%s: found existing work for %s '' w)
      else
        (case image_read input_path (logger INFO ''%s: processing %s'' w) of
           (Inl e, w1) \<Rightarrow> (Inl e, moving, w1)
         | (Inr m, w1) \<Rightarrow>
            (case registration_call eng (fixed st) m (type_of_transform st) w1 of
               (Inl e, w2) \<Rightarrow> (Inl e, Some m, w2)
             | (Inr reg, w2) \<Rightarrow>
                (case write_step_output reg input_name (step_dir st) (transform_avg st) False w2 of
                   (r, w3) \<Rightarrow> (r, Some m, w3)))))"

text \<open>The mirrored half: it reads the local variable \<^verbatim>\<open>moving\<close>, which the Python leaves
  unbound (UnboundLocalError, an Exception) unless the other half assigned it.\<close>

definition attempt_mirror ::
  "engine \<Rightarrow> stage \<Rightarrow> path \<Rightarrow> real image option \<Rightarrow> world \<Rightarrow> (exc + unit) \<times> world" where
  "attempt_mirror eng st input_path moving w =
     (let input_name = name_of input_path in
      if step_output_exists input_name (step_dir st) (transform_avg st) True (files w)
      then (Inr (), logger INFO ''%s: found existing work for input %s mirror'' w)
      else
        (let w0 = logger INFO ''%s: processing input %s mirror'' w in
         case moving of
           None \<Rightarrow> (Inl UnboundLocalError, w0)
         | Some m \<Rightarrow>
            (case np_flip (numpy m) 0 of
               Inl e \<Rightarrow> (Inl e, w0)
             | Inr flipped \<Rightarrow>
                (case update_image_array m flipped of
                   Inl e \<Rightarrow> (Inl e, w0)
                 | Inr moving_mirror \<Rightarrow>
                    (case registration_call eng (fixed st) moving_mirror (type_of_transform st) w0 of
                       (Inl e, w1) \<Rightarrow> (Inl e, w1)
                     | (Inr registration_mirror, w1) \<Rightarrow>
                         write_step_output registration_mirror input_name (step_dir st)
                           (transform_avg st) True w1)))))"

text \<open>The whole \<^verbatim>\<open>try\<close> body for one item.\<close>

definition attempt ::
  "engine \<Rightarrow> stage \<Rightarrow> path \<Rightarrow> real image option \<Rightarrow> world
     \<Rightarrow> (exc + unit) \<times> real image option \<times> world" where
  "attempt eng st input_path moving w =
     (case attempt_primary eng st input_path moving w of
        (Inl e, moving', w') \<Rightarrow> (Inl e, moving', w')
      | (Inr u, moving', w') \<Rightarrow>
          if stage_mirror st then
            (case attempt_mirror eng st input_path moving' w' of (r, w'') \<Rightarrow> (r, moving', w''))
          else (Inr u, moving', w'))"

text \<open>The \<^verbatim>\<open>while True\<close> for one item. \<^verbatim>\<open>__retries\<close> and \<^verbatim>\<open>moving\<close> are locals of
  \<^verbatim>\<open>alignment_iteration\<close>: they come in and go out, so the next item starts from the
  values this one leaves.\<close>

function process_item ::
  "engine \<Rightarrow> stage \<Rightarrow> path \<Rightarrow> nat \<Rightarrow> real image option \<Rightarrow> world
     \<Rightarrow> (exc + unit) \<times> nat \<times> real image option \<times> world" where
  "process_item eng st input_path retries moving w =
     (case attempt eng st input_path moving w of
        (Inr u, moving', w') \<Rightarrow> (Inr u, retries, moving', w')
      | (Inl e, moving', w') \<Rightarrow>
          if retries < 2 then
            (case clean_step_output (name_of input_path) (step_dir st) (stage_mirror st)
                    (logger ERROR ''Caught exception processing input %s, retrying'' w') of
               (Inl e', w'') \<Rightarrow> (Inl e', retries, moving', w'')
             | (Inr _, w'') \<Rightarrow> process_item eng st input_path (retries + 1) moving' w'')
          else (Inl e, retries, moving',
                logger ERROR ''Caught exception processing input %s, max retries reached'' w'))"
  by pat_completeness auto
termination
  by (relation "measure (\<lambda>(eng, st, input_path, retries, moving, w). 2 - retries)") auto

text \<open>The \<^verbatim>\<open>for input_path in glob(...)\<close>.\<close>

fun process_items ::
  "engine \<Rightarrow> stage \<Rightarrow> path list \<Rightarrow> nat \<Rightarrow> real image option \<Rightarrow> world
     \<Rightarrow> (exc + unit) \<times> nat \<times> real image option \<times> world" where
  "process_items eng st [] retries moving w = (Inr (), retries, moving, w)"
| "process_items eng st (input_path # rest) retries moving w =
     (case process_item eng st input_path retries moving w of
        (Inl e, r) \<Rightarrow> (Inl e, r)
      | (Inr _, retries', moving', w') \<Rightarrow> process_items eng st rest retries' moving' w')"

definition alignment_iteration ::
  "engine \<Rightarrow> args \<Rightarrow> path \<Rightarrow> string \<Rightarrow> path \<Rightarrow> transform_type \<Rightarrow> bool \<Rightarrow> bool \<Rightarrow> world
     \<Rightarrow> (exc + unit) \<times> world" where
  "alignment_iteration eng a moving_dir stepname fixed_path ty transformavg mirr w =
     (let stepdir = output a @ ''/scratch/'' @ stepname in
      case makedirs stepdir (files w) of
        Inl e \<Rightarrow> (Inl e, w)
      | Inr fs1 \<Rightarrow>
         (let w1 = w\<lparr>files := fs1\<rparr> in
          if path_exists fs1 (output a @ ''/templates/'' @ stepname @ ''.nii'')
          then (Inr (), logger INFO ''{step_name} template already exists'' w1)
          else
            (case image_read fixed_path w1 of
               (Inl e, w2) \<Rightarrow> (Inl e, w2)
             | (Inr fixed_img, w2) \<Rightarrow>
                (case process_items eng
                        \<lparr> step_dir = stepdir, step_name = stepname, fixed = fixed_img,
                          type_of_transform = ty, transform_avg = transformavg,
                          stage_mirror = mirr \<rparr>
                        (glob (files w2) moving_dir ''.nii'') 0 None w2 of
                   (Inl e, retries, moving, w3) \<Rightarrow> (Inl e, w3)
                 | (Inr _, retries, moving, w3) \<Rightarrow>
                    (case generate_template eng a stepname
                            (output a @ ''/templates/'' @ stepname @ ''.nii'') transformavg
                            (logger INFO ''Generating new template for  %s'' w3) of
                       (Inl e, w4) \<Rightarrow> (Inl e, w4)
                     | (Inr u, w4) \<Rightarrow> (Inr u, logger INFO ''Finished %s'' w4))))))"

subsection \<open>Concrete inputs\<close>

text \<open>A volume of shape (2, 1, 1) holding \<open>x\<close> and \<open>y\<close> along axis 0.\<close>

definition vol :: "real \<Rightarrow> real \<Rightarrow> real image" where
  "vol x y = \<lparr> numpy = \<lparr> shape = [2, 1, 1], elems = [[[x]], [[y]]] \<rparr>,
               origin = [0, 0, 0], spacing = [1, 1, 1],
               direction = [[1, 0, 0], [0, 1, 0], [0, 0, 1]], has_components = False \<rparr>"

text \<open>An engine that returns the moving image as the warped result (enough to see which
  image a registration was given), with an affine transform file, preceded for SyN by a
  warp field.\<close>

definition ex_engine :: engine where
  "ex_engine = \<lparr> ants_registration = (\<lambda>fixed moving ty.
                   \<lparr> warpedmovout = moving,
                     fwdtransforms =
                       (case ty of
                          Affine \<Rightarrow> [Mat \<lparr> parameters = [], fixed_parameters = [] \<rparr>]
                        | SyN \<Rightarrow> [Nifti moving, Mat \<lparr> parameters = [], fixed_parameters = [] \<rparr>]) \<rparr>),
                 ants_apply_transforms = (\<lambda>fixed moving t. moving),
                 scipy_legacy = (\<lambda>a. a),
                 equalize_adapthist = (\<lambda>a. a) \<rparr>"

definition ex_args :: args where
  "ex_args = \<lparr> input = [''in/a.nii'', ''in/b.nii''], output = ''out'', reference_image = None,
               force = False, preemptible = False, preprocessing = None,
               affine_steps = 1, syn_steps = 1, gradient_step = 1 / 5, mirror = False,
               keep_intermediates = False, log_file = None, verbose = False \<rparr>"

text \<open>A stage directory \<^verbatim>\<open>out/scratch/affine_0\<close> about to process the items \<open>a\<close> and \<open>b\<close>.\<close>

definition ex_stage :: "bool \<Rightarrow> stage" where
  "ex_stage m = \<lparr> step_dir = ''out/scratch/affine_0'', step_name = ''affine_0'', fixed = vol 0 0,
                  type_of_transform = Affine, transform_avg = False, stage_mirror = m \<rparr>"

definition ex_files :: filesystem where
  "ex_files = [(''out'', Dir), (''out/preprocessed'', Dir), (''out/templates'', Dir),
               (''out/scratch'', Dir), (''out/scratch/affine_0'', Dir),
               (''out/preprocessed/a.nii'', File (Nifti (vol 1 2))),
               (''out/preprocessed/b.nii'', File (Nifti (vol 3 4)))]"

subsection \<open>\<^verbatim>\<open>bifrost/cli/build_template.py\<close>: the command\<close>

text \<open>Python's \<^verbatim>\<open>str\<close> of an integer, as the f-strings format step numbers.\<close>

fun str_nat :: "nat \<Rightarrow> string" where
  "str_nat n =
     (if n < 10 then [char_of (48 + n)]
      else str_nat (n div 10) @ [char_of (48 + n mod 10)])"

declare str_nat.simps [simp del]

definition str_int :: "int \<Rightarrow> string" where
  "str_int i = (if i < 0 then CHR ''-'' # str_nat (nat (- i)) else str_nat (nat i))"

text \<open>\<^verbatim>\<open>shutil.copy(src, dst)\<close> of a file.\<close>

definition shutil_copy :: "path \<Rightarrow> path \<Rightarrow> world \<Rightarrow> (exc + unit) \<times> world" where
  "shutil_copy src dst w =
     (case stat (files w) src of
        None \<Rightarrow> (Inl FileNotFoundError, w)
      | Some (File d) \<Rightarrow> write_file dst d w
      | Some _ \<Rightarrow> (Inl IsADirectoryError, w))"

text \<open>\<^verbatim>\<open>shutil.move(src, dst)\<close>: into \<open>dst\<close> when that is a directory, a rename (replacing
  a file at \<open>dst\<close>) otherwise; the entries below a moved directory move with it.\<close>

definition rename :: "path \<Rightarrow> path \<Rightarrow> filesystem \<Rightarrow> filesystem" where
  "rename src dst fs =
     map (\<lambda>(p, n). (if p = src then dst else if under src p then dst @ drop (length src) p else p, n))
       (AList.delete dst fs)"

definition shutil_move :: "path \<Rightarrow> path \<Rightarrow> filesystem \<Rightarrow> exc + filesystem" where
  "shutil_move src dst fs =
     (case lookup fs src of
        None \<Rightarrow> Inl FileNotFoundError
      | Some n \<Rightarrow>
          if isdir fs dst then
            (if lookup fs (dst @ ''/'' @ basename src) = None
             then Inr (rename src (dst @ ''/'' @ basename src) fs)
             else Inl FileExistsError)
          else if isdir fs (dirname dst) then Inr (rename src dst fs)
          else Inl FileNotFoundError)"

text \<open>\<^verbatim>\<open>os.symlink(src, dst)\<close>: a link named \<open>dst\<close> whose target is the string \<open>src\<close>.\<close>

definition os_symlink :: "path \<Rightarrow> path \<Rightarrow> filesystem \<Rightarrow> exc + filesystem" where
  "os_symlink src dst fs =
     (if lookup fs dst = None then
        (if isdir fs (dirname dst) then Inr (AList.update dst (Symlink src) fs)
         else Inl FileNotFoundError)
      else Inl FileExistsError)"

text \<open>\<^verbatim>\<open>preprocess(args, input_path, output_path)\<close>. \<^verbatim>\<open>__legacy_preprocess\<close> up to its final
  \<^verbatim>\<open>update_image_array\<close>, and the min-max rescaling followed by \<^verbatim>\<open>equalize_adapthist\<close>,
  are collaborators on arrays.\<close>

definition preprocess :: "engine \<Rightarrow> args \<Rightarrow> path \<Rightarrow> path \<Rightarrow> world \<Rightarrow> (exc + unit) \<times> world" where
  "preprocess eng a input_path output_path w =
     (case image_read input_path w of
        (Inl e, w1) \<Rightarrow> (Inl e, w1)
      | (Inr img, w1) \<Rightarrow>
         (case preprocessing a of
            None \<Rightarrow> shutil_copy input_path output_path w1
          | Some modes \<Rightarrow>
             (case (if ''legacy'' \<in> set modes
                    then update_image_array img (scipy_legacy eng (numpy img)) else Inr img) of
                Inl e \<Rightarrow> (Inl e, w1)
              | Inr img1 \<Rightarrow>
                 (case (if ''CLAHE'' \<in> set modes
                        then update_image_array img1 (equalize_adapthist eng (numpy img1))
                        else Inr img1) of
                    Inl e \<Rightarrow> (Inl e, w1)
                  | Inr img2 \<Rightarrow> image_write img2 output_path w1))))"

text \<open>PATH LOGIC: the loop over \<^verbatim>\<open>args.input\<close>.\<close>

fun collect_inputs :: "filesystem \<Rightarrow> path list \<Rightarrow> exc + path list" where
  "collect_inputs fs [] = Inr []"
| "collect_inputs fs (input_path # rest) =
     (if path_exists fs input_path then
        (case collect_inputs fs rest of
           Inl e \<Rightarrow> Inl e
         | Inr ps \<Rightarrow>
             Inr ((if isdir fs input_path
                   then map (\<lambda>input_file. input_path @ ''/'' @ input_file) (listdir fs input_path)
                   else [input_path]) @ ps))
      else Inl AssertionError)"

text \<open>PREPROCESSING: the loop over \<^verbatim>\<open>input_paths\<close>.\<close>

fun preprocess_all :: "engine \<Rightarrow> args \<Rightarrow> path list \<Rightarrow> world \<Rightarrow> (exc + unit) \<times> world" where
  "preprocess_all eng a [] w = (Inr (), w)"
| "preprocess_all eng a (input_path # rest) w =
     (let output_path = output a @ ''/preprocessed/'' @ name_of input_path @ ''.nii'' in
      if \<not> path_exists (files w) output_path then
        (case preprocess eng a input_path output_path (logger INFO ''Preprocessing %s'' w) of
           (Inl e, w1) \<Rightarrow> (Inl e, w1)
         | (Inr _, w1) \<Rightarrow> preprocess_all eng a rest w1)
      else preprocess_all eng a rest (logger INFO ''%s already preprocessed'' w))"

text \<open>The loops \<^verbatim>\<open>for affine_step in range(1, args.affine_steps)\<close> and
  \<^verbatim>\<open>for syn_step in range(1, args.syn_steps)\<close>.\<close>

fun affine_loop :: "engine \<Rightarrow> args \<Rightarrow> int list \<Rightarrow> world \<Rightarrow> (exc + unit) \<times> world" where
  "affine_loop eng a [] w = (Inr (), w)"
| "affine_loop eng a (affine_step # rest) w =
     (case alignment_iteration eng a
             (output a @ ''/scratch/affine_'' @ str_int (affine_step - 1))
             (''affine_'' @ str_int affine_step)
             (output a @ ''/templates/affine_'' @ str_int (affine_step - 1) @ ''.nii'')
             Affine False False (logger INFO ''Starting affine step %s'' w) of
        (Inl e, w1) \<Rightarrow> (Inl e, w1)
      | (Inr _, w1) \<Rightarrow> affine_loop eng a rest w1)"

fun syn_loop :: "engine \<Rightarrow> args \<Rightarrow> int list \<Rightarrow> world \<Rightarrow> (exc + unit) \<times> world" where
  "syn_loop eng a [] w = (Inr (), w)"
| "syn_loop eng a (syn_step # rest) w =
     (case alignment_iteration eng a
             (output a @ ''/scratch/syn_'' @ str_int (syn_step - 1))
             (''syn_'' @ str_int syn_step)
             (output a @ ''/templates/syn_'' @ str_int (syn_step - 1) @ ''.nii'')
             SyN True False (logger INFO ''Starting SyN step %s'' w) of
        (Inl e, w1) \<Rightarrow> (Inl e, w1)
      | (Inr _, w1) \<Rightarrow> syn_loop eng a rest w1)"

text \<open>\<^verbatim>\<open>range(1, n)\<close>.\<close>

definition range1 :: "int \<Rightarrow> int list" where
  "range1 n = map int [1..<nat n]"

text \<open>The four \<^verbatim>\<open>os.makedirs\<close> and the log file handler, which opens (creates) the log
  file.\<close>

definition make_output_dirs :: "args \<Rightarrow> world \<Rightarrow> (exc + unit) \<times> world" where
  "make_output_dirs a w =
     (case makedirs (output a) (files w) of
        Inl e \<Rightarrow> (Inl e, w)
      | Inr fs1 \<Rightarrow>
     (case makedirs (output a @ ''/preprocessed'') fs1 of
        Inl e \<Rightarrow> (Inl e, w\<lparr>files := fs1\<rparr>)
      | Inr fs2 \<Rightarrow>
     (case makedirs (output a @ ''/templates'') fs2 of
        Inl e \<Rightarrow> (Inl e, w\<lparr>files := fs2\<rparr>)
      | Inr fs3 \<Rightarrow>
     (case makedirs (output a @ ''/scratch'') fs3 of
        Inl e \<Rightarrow> (Inl e, w\<lparr>files := fs3\<rparr>)
      | Inr fs4 \<Rightarrow>
         (let log_path = (case log_file a of None \<Rightarrow> output a @ ''/build_template.log''
                                           | Some p \<Rightarrow> p);
              w5 = logger INFO ''Writings logs to %s'' (w\<lparr>files := fs4\<rparr>)
          in if isdir (files w5) log_path then (Inl IsADirectoryError, w5)
             else if \<not> isdir (files w5) (dirname log_path) then (Inl FileNotFoundError, w5)
             else if path_exists (files w5) log_path then (Inr (), w5)
             else (Inr (), w5\<lparr>files := AList.update log_path (File Other) (files w5)\<rparr>))))))"

text \<open>The lines after the last SyN step, "Cleaning up": the move of the last template,
  then the symlink or the removal of the intermediate directories.\<close>

definition cleaning_up :: "args \<Rightarrow> world \<Rightarrow> (exc + unit) \<times> world" where
  "cleaning_up a w =
     (let w1 = logger INFO ''Cleaning up'' w in
      case shutil_move (output a @ ''/templates/syn_'' @ str_int (syn_steps a - 1) @ ''.nii'')
             (output a @ ''/template.nii'') (files w1) of
        Inl e \<Rightarrow> (Inl e, w1)
      | Inr fs2 \<Rightarrow>
          if keep_intermediates a then
            (case os_symlink (output a @ ''/template.nii'')
                    (output a @ ''/templates/syn_'' @ str_int (syn_steps a) @ ''.nii'') fs2 of
               Inl e \<Rightarrow> (Inl e, w1\<lparr>files := fs2\<rparr>)
             | Inr fs3 \<Rightarrow> (Inr (), logger INFO ''Template generation complete'' (w1\<lparr>files := fs3\<rparr>)))
          else
            (case rmtree (output a @ ''/preprocessed'') fs2 of
               Inl e \<Rightarrow> (Inl e, w1\<lparr>files := fs2\<rparr>)
             | Inr fs3 \<Rightarrow>
                (case rmtree (output a @ ''/templates'') fs3 of
                   Inl e \<Rightarrow> (Inl e, w1\<lparr>files := fs3\<rparr>)
                 | Inr fs4 \<Rightarrow>
                     (Inr (), logger INFO ''Template generation complete'' (w1\<lparr>files := fs4\<rparr>)))))"

text \<open>Everything of the \<^verbatim>\<open>try\<close> after the directories exist.\<close>

definition run_stages :: "engine \<Rightarrow> args \<Rightarrow> path list \<Rightarrow> world \<Rightarrow> (exc + unit) \<times> world" where
  "run_stages eng a input_paths w =
     (case preprocess_all eng a input_paths (logger INFO ''Preprocessing flies: %s'' w) of
        (Inl e, w1) \<Rightarrow> (Inl e, w1)
      | (Inr _, w1) \<Rightarrow>
     (case (case reference_image a of
              Some r \<Rightarrow> Inr r
            | None \<Rightarrow> (case input_paths of [] \<Rightarrow> Inl IndexError | p # ps \<Rightarrow> Inr p)) of
        Inl e \<Rightarrow> (Inl e, w1)
      | Inr initial_image \<Rightarrow>
     (case alignment_iteration eng a (output a @ ''/preprocessed'') ''affine_0'' initial_image
             Affine False (mirror a) (logger INFO ''Starting affine step 0'' w1) of
        (Inl e, w2) \<Rightarrow> (Inl e, w2)
      | (Inr _, w2) \<Rightarrow>
     (case affine_loop eng a (range1 (affine_steps a)) w2 of
        (Inl e, w3) \<Rightarrow> (Inl e, w3)
      | (Inr _, w3) \<Rightarrow>
     (case alignment_iteration eng a
             (output a @ ''/scratch/affine_'' @ str_int (affine_steps a - 1)) ''syn_0''
             (output a @ ''/templates/affine_'' @ str_int (affine_steps a - 1) @ ''.nii'')
             SyN True False (logger INFO ''Starting SyN step 0'' w3) of
        (Inl e, w4) \<Rightarrow> (Inl e, w4)
      | (Inr _, w4) \<Rightarrow>
     (case syn_loop eng a (range1 (syn_steps a)) w4 of
        (Inl e, w5) \<Rightarrow> (Inl e, w5)
      | (Inr _, w5) \<Rightarrow> cleaning_up a w5))))))"

text \<open>The body of the \<^verbatim>\<open>try\<close> of \<^verbatim>\<open>build_template\<close>. \<open>Inr ()\<close> is a normal exit, the
  early \<^verbatim>\<open>return\<close> included.\<close>

definition build_template_try :: "engine \<Rightarrow> args \<Rightarrow> world \<Rightarrow> (exc + unit) \<times> world" where
  "build_template_try eng a w =
     (case collect_inputs (files w) (input a) of
        Inl e \<Rightarrow> (Inl e, w)
      | Inr input_paths \<Rightarrow>
         (let w1 = logger DEBUG ''Parsed input files: %s'' w in
          if (case reference_image a of None \<Rightarrow> False | Some r \<Rightarrow> \<not> path_exists (files w1) r)
          then (Inl AssertionError, w1)
          else
            (case (if path_exists (files w1) (output a) then
                     (if force a then
                        (case rmtree (output a) (files w1) of
                           Inl e \<Rightarrow> (Inl e, False, logger INFO ''Cleaning existing results directory'' w1)
                         | Inr fs' \<Rightarrow>
                             (Inr (), False,
                              (logger INFO ''Cleaning existing results directory'' w1)\<lparr>files := fs'\<rparr>))
                      else if preemptible a then
                        (Inr (), False, logger INFO ''Resuming existing work'' w1)
                      else
                        (Inr (), True,
                         logger WARNING
                           ''Results directory already exists. Run again with --force to override or --preemptible to resume''
                           w1))
                   else (Inr (), False, w1)) of
               (Inl e, early, w2) \<Rightarrow> (Inl e, w2)
             | (Inr _, early, w2) \<Rightarrow>
                 if early then (Inr (), w2)
                 else
                   (case make_output_dirs a w2 of
                      (Inl e, w3) \<Rightarrow> (Inl e, w3)
                    | (Inr _, w3) \<Rightarrow> run_stages eng a input_paths w3))))"

text \<open>\<^verbatim>\<open>build_template(args)\<close>: the \<^verbatim>\<open>try\<close>, the \<^verbatim>\<open>except\<close> that logs and re-raises, and
  the \<^verbatim>\<open>finally\<close>, which runs on every way out of the \<^verbatim>\<open>try\<close> (an exception, the end
  of the body, the early \<^verbatim>\<open>return\<close>) and whose own exception replaces the outcome.\<close>

definition build_template :: "engine \<Rightarrow> args \<Rightarrow> world \<Rightarrow> (exc + unit) \<times> world" where
  "build_template eng a w =
     (case build_template_try eng a w of
        (r, w1) \<Rightarrow>
          (let w2 = (case r of Inl e \<Rightarrow> logger ERROR ''Caught general exception'' w1
                             | Inr u \<Rightarrow> w1);
               w3 = logger INFO ''Exiting, cleaning scratch'' w2
           in case rmtree (output a @ ''/scratch'') (files w3) of
                Inl e \<Rightarrow> (Inl e, w3)
              | Inr fs' \<Rightarrow> (r, w3\<lparr>files := fs'\<rparr>)))"

text \<open>Two input volumes, and the output directory as a finished run of
  \<^verbatim>\<open>build_template\<close> on them leaves it (its scratch directory removed).\<close>

definition in_files :: filesystem where
  "in_files = [(''in'', Dir), (''in/a.nii'', File (Nifti (vol 1 2))),
               (''in/b.nii'', File (Nifti (vol 3 5)))]"

definition finished_files :: filesystem where
  "finished_files = in_files @
     [(''out'', Dir), (''out/build_template.log'', File Other),
      (''out/template.nii'', File (Nifti (vol 2 (7 / 2))))]"

text \<open>The output directory of a run that was interrupted during \<^verbatim>\<open>affine_0\<close>.\<close>

definition interrupted_files :: filesystem where
  "interrupted_files = in_files @
     [(''out'', Dir), (''out/preprocessed'', Dir), (''out/templates'', Dir),
      (''out/scratch'', Dir), (''out/build_template.log'', File Other),
      (''out/preprocessed/a.nii'', File (Nifti (vol 1 2))),
      (''out/preprocessed/b.nii'', File (Nifti (vol 3 5))),
      (''out/scratch/affine_0'', Dir),
      (''out/scratch/affine_0/a.nii'', File (Nifti (vol 1 2)))]"

definition quiet :: "filesystem \<Rightarrow> world" where
  "quiet fs = \<lparr> files = fs, script = [], logged = [] \<rparr>"

text \<open>The output directory at the start of the stage \<^verbatim>\<open>affine_0\<close>: both inputs
  preprocessed, nothing aligned yet.\<close>

definition staged_files :: filesystem where
  "staged_files = in_files @
     [(''out'', Dir), (''out/preprocessed'', Dir), (''out/templates'', Dir),
      (''out/scratch'', Dir), (''out/build_template.log'', File Other),
      (''out/preprocessed/a.nii'', File (Nifti (vol 1 2))),
      (''out/preprocessed/b.nii'', File (Nifti (vol 3 5))),
      (''out/scratch/affine_0'', Dir)]"

text \<open>The same with the non-mirrored output of \<open>b\<close> left by an earlier run.\<close>

definition resumed_files :: filesystem where
  "resumed_files = staged_files @ [(''out/scratch/affine_0/b.nii'', File (Nifti (vol 3 5)))]"

text \<open>\<^verbatim>\<open>bifrost/cli/register.py\<close>, PATH LOGIC: the result is whether \<^verbatim>\<open>register\<close> returns
  early.\<close>

definition rstrip_slash :: "string \<Rightarrow> string" where
  "rstrip_slash s = rev (dropWhile (\<lambda>c. c = CHR ''/'') (rev s))"

definition register_path_logic :: "path \<Rightarrow> path \<Rightarrow> bool \<Rightarrow> world \<Rightarrow> (exc + bool) \<times> world" where
  "register_path_logic moving_path results_dir_arg force_flag w =
     (if path_exists (files w) moving_path then
        (let results_dir = rstrip_slash results_dir_arg;
             w1 = logger INFO ''Storing results in %s'' w
         in if path_exists (files w1) results_dir then
              (if force_flag then
                 (let w2 = logger INFO ''Cleaning existing results directory'' w1 in
                  case rmtree results_dir (files w2) of
                    Inl e \<Rightarrow> (Inl e, w2)
                  | Inr fs1 \<Rightarrow>
                     (case makedirs results_dir fs1 of
                        Inl e \<Rightarrow> (Inl e, w2\<lparr>files := fs1\<rparr>)
                      | Inr fs2 \<Rightarrow> (Inr False, w2\<lparr>files := fs2\<rparr>)))
               else
                 (Inr True,
                  logger WARNING
                    ''Results directory already exists. Run again with -f or --force to override'' w1))
            else
              (case makedirs results_dir (files w1) of
                 Inl e \<Rightarrow> (Inl e, w1)
               | Inr fs1 \<Rightarrow> (Inr False, w1\<lparr>files := fs1\<rparr>)))
      else (Inl AssertionError, w))"

section \<open>\<^verbatim>\<open>bifrost/io.py\<close>: the transform archive\<close>



























section \<open>\<^verbatim>\<open>bifrost/cli/register.py\<close>: transposition and mirror axis\<close>









section \<open>\<^verbatim>\<open>bifrost/cli/register.py\<close>: symmetrizing the predicted warp\<close>

text \<open>The five-dimensional array \<^verbatim>\<open>model.register\<close> returns, of shape
  (batch, x, y, z, component).\<close>

record 'a ndarray5 =
  shape5 :: "nat list"
  elems5 :: "'a list list list list list"

definition wf_ndarray5 :: "'a ndarray5 \<Rightarrow> bool" where
  "wf_ndarray5 a =
     (length (shape5 a) = 5 \<and> length (elems5 a) = shape5 a ! 0
      \<and> list_all (\<lambda>b. length b = shape5 a ! 1
          \<and> list_all (\<lambda>x. length x = shape5 a ! 2
              \<and> list_all (\<lambda>y. length y = shape5 a ! 3
                  \<and> list_all (\<lambda>z. length z = shape5 a ! 4) y) x) b) (elems5 a))"

text \<open>\<^verbatim>\<open>np.flip(a, axis)\<close> on five axes.\<close>

definition np_flip5 :: "'a ndarray5 \<Rightarrow> nat \<Rightarrow> exc + 'a ndarray5" where
  "np_flip5 a axis =
     (if axis = 0 then Inr (a\<lparr>elems5 := rev (elems5 a)\<rparr>)
      else if axis = 1 then Inr (a\<lparr>elems5 := map rev (elems5 a)\<rparr>)
      else if axis = 2 then Inr (a\<lparr>elems5 := map (map rev) (elems5 a)\<rparr>)
      else if axis = 3 then Inr (a\<lparr>elems5 := map (map (map rev)) (elems5 a)\<rparr>)
      else if axis = 4 then Inr (a\<lparr>elems5 := map (map (map (map rev))) (elems5 a)\<rparr>)
      else Inl ValueError)"

text \<open>\<^verbatim>\<open>-a\<close>.\<close>

definition np_neg5 :: "real ndarray5 \<Rightarrow> real ndarray5" where
  "np_neg5 a = a\<lparr>elems5 := map (map (map (map (map uminus)))) (elems5 a)\<rparr>"

text \<open>\<^verbatim>\<open>np.mean([a, b], axis=0)\<close>: the two arrays must have one shape to be stacked.\<close>

definition np_mean2 :: "real ndarray5 \<Rightarrow> real ndarray5 \<Rightarrow> exc + real ndarray5" where
  "np_mean2 a b =
     (if shape5 a = shape5 b
      then Inr (a\<lparr>elems5 :=
                  map2 (map2 (map2 (map2 (map2 (\<lambda>x y. (x + y) / 2))))) (elems5 a) (elems5 b)\<rparr>)
      else Inl ValueError)"

text \<open>\<^verbatim>\<open>a[:, :, :, :, c] = b[:, :, :, :, c]\<close>.\<close>

definition assign_component :: "nat \<Rightarrow> 'a ndarray5 \<Rightarrow> 'a ndarray5 \<Rightarrow> exc + 'a ndarray5" where
  "assign_component c a b =
     (if length (shape5 a) = 5 \<and> length (shape5 b) = 5
         \<and> c < shape5 a ! 4 \<and> c < shape5 b ! 4 then
        (if take 4 (shape5 a) = take 4 (shape5 b)
         then Inr (a\<lparr>elems5 :=
                     map2 (map2 (map2 (map2 (\<lambda>v v'. v[c := v' ! c])))) (elems5 a) (elems5 b)\<rparr>)
         else Inl ValueError)
      else Inl IndexError)"

text \<open>The block "symmetrize warp" of \<^verbatim>\<open>register\<close>; \<^verbatim>\<open>mirror_axis\<close> is \<open>None\<close> when the
  detection did not run.\<close>

definition symmetrize_warp :: "bool \<Rightarrow> nat option \<Rightarrow> real ndarray5 \<Rightarrow> exc + real ndarray5" where
  "symmetrize_warp mirror_warp mirror_axis warp =
     (if mirror_warp then
        (case mirror_axis of
           None \<Rightarrow> Inl TypeError
         | Some ax \<Rightarrow>
            (case np_flip5 warp (ax + 1) of
               Inl e \<Rightarrow> Inl e
             | Inr flipped_warp \<Rightarrow>
                (case np_mean2 warp flipped_warp of
                   Inl e \<Rightarrow> Inl e
                 | Inr mirrored_warp \<Rightarrow>
                    (case np_mean2 warp (np_neg5 flipped_warp) of
                       Inl e \<Rightarrow> Inl e
                     | Inr negated_mean \<Rightarrow> assign_component ax mirrored_warp negated_mean))))
      else Inr warp)"

text \<open>The index a reflection across \<open>axis\<close> sends \<open>i\<close> to, on an axis \<open>d\<close> of length \<open>n\<close>.\<close>

definition reflect :: "nat \<Rightarrow> nat \<Rightarrow> nat \<Rightarrow> nat \<Rightarrow> nat" where
  "reflect axis d n i = (if d = axis then n - 1 - i else i)"

text \<open>A warp of shape (1, 2, 1, 1, 3).\<close>

definition ex_warp :: "real ndarray5" where
  "ex_warp = \<lparr> shape5 = [1, 2, 1, 1, 3], elems5 = [[[[[1, 2, 3]]], [[[5, 8, 13]]]]] \<rparr>"

section \<open>Facts about arrays\<close>

lemma perm3_cases:
  assumes "sort P = [0..<3]"
  shows "P \<in> {[0,1,2],[0,2,1],[1,0,2],[1,2,0],[2,0,1],[2,1,0::nat]}"
proof -
  have l: "length P = 3" using arg_cong[OF assms, of length] by simp
  have s: "set P = {0..<3}" using arg_cong[OF assms, of set] by simp
  have d: "distinct P" using arg_cong[OF assms, of distinct] by simp
  from l obtain a b c where P: "P = [a,b,c]"
    by (auto simp: numeral_3_eq_3 length_Suc_conv)
  have "a \<in> {0..<3}" "b \<in> {0..<3}" "c \<in> {0..<3}"
    using s unfolding P by auto
  then have r: "a = 0 \<or> a = 1 \<or> a = 2" "b = 0 \<or> b = 1 \<or> b = 2" "c = 0 \<or> c = 1 \<or> c = 2"
    by auto
  have n: "a \<noteq> b" "a \<noteq> c" "b \<noteq> c"
    using d unfolding P by auto
  show ?thesis unfolding P using r n by auto
qed


lemma tabulate3_nth:
  "i < n0 \<Longrightarrow> j < n1 \<Longrightarrow> k < n2 \<Longrightarrow> tabulate3 n0 n1 n2 f ! i ! j ! k = f i j k"
  by (simp add: tabulate3_def)

lemma tabulate3_cong:
  "(\<And>i j k. i < n0 \<Longrightarrow> j < n1 \<Longrightarrow> k < n2 \<Longrightarrow> f i j k = g i j k)
   \<Longrightarrow> tabulate3 n0 n1 n2 f = tabulate3 n0 n1 n2 g"
  by (simp add: tabulate3_def)

lemma map_nth_upt: "length xs = n \<Longrightarrow> map (\<lambda>i. xs ! i) [0..<n] = xs"
  by (auto simp: map_nth)

lemma tabulate3_elems:
  assumes "wf_ndarray a"
  shows "tabulate3 (shape a ! 0) (shape a ! 1) (shape a ! 2) (\<lambda>i j k. elems a ! i ! j ! k) = elems a"
proof -
  have l0: "length (elems a) = shape a ! 0" using assms by (simp add: wf_ndarray_def)
  have l1: "\<And>i. i < shape a ! 0 \<Longrightarrow> length (elems a ! i) = shape a ! 1"
    using assms by (simp add: wf_ndarray_def list_all_length)
  have l2: "\<And>i j. i < shape a ! 0 \<Longrightarrow> j < shape a ! 1 \<Longrightarrow> length (elems a ! i ! j) = shape a ! 2"
    using assms by (simp add: wf_ndarray_def list_all_length)
  show ?thesis
    unfolding tabulate3_def
    by (rule nth_equalityI) (auto simp: l0 l1 l2 intro!: nth_equalityI)
qed


lemma upt3: "[0..<3] = [0, Suc 0, 2]"
  by (simp add: upt_rec)

lemma argsort_perm3:
  "argsort [0, Suc 0, 2] = [0, Suc 0, 2]" "argsort [0, 2, Suc 0] = [0, 2, Suc 0]"
  "argsort [Suc 0, 0, 2] = [Suc 0, 0, 2]" "argsort [Suc 0, 2, 0] = [2, 0, Suc 0]"
  "argsort [2, 0, Suc 0] = [Suc 0, 2, 0]" "argsort [2, Suc 0, 0] = [2, Suc 0, 0]"
  by (simp_all add: argsort_def)

lemma shape3:
  assumes "wf_ndarray a"
  obtains n0 n1 n2 where "shape a = [n0, n1, n2]"
  using assms by (auto simp: wf_ndarray_def numeral_3_eq_3 length_Suc_conv)

lemma np_transpose_roundtrip:
  assumes wf: "wf_ndarray (a::'a ndarray)" and P: "sort P = [0..<3]"
  shows "\<exists>b. np_transpose a P = Inr b \<and> np_transpose b (argsort P) = Inr a"
proof -
  obtain n0 n1 n2 where sh: "shape a = [n0, n1, n2]" using wf by (rule shape3)
  have el: "tabulate3 n0 n1 n2 (\<lambda>i j k. elems a ! i ! j ! k) = elems a"
    using tabulate3_elems[OF wf] by (simp add: sh)
  have tab: "\<And>f. (\<And>i j k. i < n0 \<Longrightarrow> j < n1 \<Longrightarrow> k < n2 \<Longrightarrow> f i j k = elems a ! i ! j ! k)
      \<Longrightarrow> tabulate3 n0 n1 n2 f = elems a"
    using tabulate3_cong[of n0 n1 n2 _ "\<lambda>i j k. elems a ! i ! j ! k"] el by simp
  have eq: "\<And>e. e = elems a \<Longrightarrow> \<lparr>shape = [n0, n1, n2], elems = e\<rparr> = a"
    using sh by simp
  from perm3_cases[OF P] consider "P = [0,1,2]" | "P = [0,2,1]" | "P = [1,0,2]"
    | "P = [1,2,0]" | "P = [2,0,1]" | "P = [2,1,0]" by auto
  then show ?thesis
  proof cases
    case 1
    show ?thesis unfolding 1
      apply (simp add: np_transpose_def sh upt3 pos_def argsort_perm3)
      by (intro eq tab) (simp add: tabulate3_nth)
  next
    case 2
    show ?thesis unfolding 2
      apply (simp add: np_transpose_def sh upt3 pos_def argsort_perm3)
      by (intro eq tab) (simp add: tabulate3_nth)
  next
    case 3
    show ?thesis unfolding 3
      apply (simp add: np_transpose_def sh upt3 pos_def argsort_perm3)
      by (intro eq tab) (simp add: tabulate3_nth)
  next
    case 4
    show ?thesis unfolding 4
      apply (simp add: np_transpose_def sh upt3 pos_def argsort_perm3)
      by (intro eq tab) (simp add: tabulate3_nth)
  next
    case 5
    show ?thesis unfolding 5
      apply (simp add: np_transpose_def sh upt3 pos_def argsort_perm3)
      by (intro eq tab) (simp add: tabulate3_nth)
  next
    case 6
    show ?thesis unfolding 6
      apply (simp add: np_transpose_def sh upt3 pos_def argsort_perm3)
      by (intro eq tab) (simp add: tabulate3_nth)
  qed
qed


lemma permute_roundtrip:
  assumes P: "sort P = [0..<3]" and l: "length (xs::'b list) = 3"
  shows "\<exists>ys. permute P xs = Inr ys \<and> permute (argsort P) ys = Inr xs"
proof -
  from l obtain x y z where xs: "xs = [x, y, z]"
    by (auto simp: numeral_3_eq_3 length_Suc_conv)
  from perm3_cases[OF P] show ?thesis
    by (auto simp: argsort_perm3 permute_def xs)
qed

lemma argsort_is_perm3:
  assumes P: "sort P = [0..<3]"
  shows "sort (argsort P) = [0..<length (argsort P)]" "length P = 3"
  using perm3_cases[OF P] by (auto simp: argsort_perm3)

text \<open>Claim C6. For every permutation \<open>P\<close> of the three axes, \<^verbatim>\<open>transpose_image\<close> with \<open>P\<close>
  succeeds on a volume, and \<^verbatim>\<open>transpose_image\<close> of the result with \<^verbatim>\<open>np.argsort(P)\<close> succeeds
  and returns the original volume: the same data array and shape, origin, spacing and
  direction matrix.\<close>

theorem transpose_image_roundtrip:
  assumes wf: "wf_image (img::'a image)" and P: "sort P = [0..<3]"
  shows "\<exists>img'. transpose_image img P = Inr img'
           \<and> transpose_image img' (argsort P) = Inr img"
proof -
  obtain b where b: "np_transpose (numpy img) P = Inr b" "np_transpose b (argsort P) = Inr (numpy img)"
    using np_transpose_roundtrip[OF _ P, of "numpy img"] wf by (auto simp: wf_image_def)
  obtain o' where o: "permute P (origin img) = Inr o'" "permute (argsort P) o' = Inr (origin img)"
    using permute_roundtrip[OF P, of "origin img"] wf by (auto simp: wf_image_def)
  obtain s' where s: "permute P (spacing img) = Inr s'" "permute (argsort P) s' = Inr (spacing img)"
    using permute_roundtrip[OF P, of "spacing img"] wf by (auto simp: wf_image_def)
  obtain d' where d: "permute P (direction img) = Inr d'" "permute (argsort P) d' = Inr (direction img)"
    using permute_roundtrip[OF P, of "direction img"] wf by (auto simp: wf_image_def)
  have lP: "sort P = [0..<length P]" using P argsort_is_perm3(2)[OF P] by simp
  show ?thesis
    by (simp add: transpose_image_def lP argsort_is_perm3(1)[OF P] b o s d)
qed

theorem transpose_image_roundtrip_witness:
  "wf_image ex_img \<and> sort [2, 0, 1::nat] = [0..<3]
   \<and> (\<exists>img'. transpose_image ex_img [2, 0, 1] = Inr img'
           \<and> transpose_image img' (argsort [2, 0, 1::nat]) = Inr ex_img)"
proof -
  have w: "wf_image ex_img" by (simp add: wf_image_def wf_ndarray_def ex_img_def)
  have p: "sort [2, 0, 1::nat] = [0..<3]" by (simp add: upt3)
  show ?thesis using w p transpose_image_roundtrip[OF w p] by simp
qed

section \<open>The retry loop of an alignment stage\<close>

text \<open>Once two failures have been counted in a stage, whichever items they came from, a
  failing attempt on any item is raised at once.\<close>

lemma process_item_no_budget:
  assumes "attempt eng st input_path moving w = (Inl e, moving', w')"
  shows "fst (process_item eng st input_path 2 moving w) = Inl e"
  using assms by simp

text \<open>The cleanup of a mirrored stage removes the two mirrored names and nothing else: the
  non-mirrored output of the item stays where the failed attempt left it.\<close>

lemma lookup_delete_other: "q \<noteq> p \<Longrightarrow> lookup (AList.delete p fs) q = lookup fs q"
  by (simp add: lookup_def delete_conv')

lemma remove_if_present_other:
  "q \<noteq> p \<Longrightarrow> lookup (files (snd (remove_if_present p w))) q = lookup (files w) q"
  by (auto simp: remove_if_present_def os_remove_def lookup_delete_other
           split: option.splits node.splits sum.splits exc.splits)

lemma clean_step_output_mirror_keeps_primary:
  "lookup (files (snd (clean_step_output input_name dir True w))) (dir @ ''/'' @ input_name @ ''.nii'')
     = lookup (files w) (dir @ ''/'' @ input_name @ ''.nii'')"
proof -
  have "lookup (files (snd (clean_step_output input_name dir True w))) (dir @ ''/'' @ input_name @ ''.nii'')
      = lookup (files (snd (remove_if_present (dir @ ''/'' @ input_name @ ''_m.nii'') w)))
          (dir @ ''/'' @ input_name @ ''.nii'')"
    by (cases "remove_if_present (dir @ ''/'' @ input_name @ ''_m.nii'') w")
       (auto simp: clean_step_output_def suffix_of_def remove_if_present_other split: sum.splits)
  then show ?thesis by (simp add: remove_if_present_other)
qed

text \<open>The cleanup of a stage that is not mirrored, when it succeeds, leaves neither of the
  item's two files.\<close>

lemma lookup_delete_same:
  "\<not> is_root p \<Longrightarrow> lookup (AList.delete p fs) p = None"
  by (simp add: lookup_def delete_conv')

lemma remove_if_present_gone:
  assumes "\<not> is_root p" and "remove_if_present p w = (Inr u, w')"
  shows "lookup (files w') p = None"
  using assms
  by (auto simp: remove_if_present_def os_remove_def lookup_delete_same
           split: option.splits node.splits sum.splits exc.splits)

lemma not_root_file: "\<not> is_root (d @ ''/'' @ n @ CHR ''.'' # s)"
  by (simp add: is_root_def)

lemma not_root_transform: "\<not> is_root (d @ ''/'' @ n @ CHR ''_'' # s)"
  by (simp add: is_root_def)

lemma clean_step_output_primary_removes:
  assumes "clean_step_output input_name dir False w = (Inr u, w')"
  shows "lookup (files w') (dir @ ''/'' @ input_name @ ''.nii'') = None
       \<and> lookup (files w') (dir @ ''/'' @ input_name @ ''_t.nii.gz'') = None"
proof -
  from assms obtain u1 w1 where
    1: "remove_if_present (dir @ ''/'' @ input_name @ ''.nii'') w = (Inr u1, w1)" and
    2: "remove_if_present (dir @ ''/'' @ input_name @ ''_t.nii.gz'') w1 = (Inr u, w')"
    by (auto simp: clean_step_output_def suffix_of_def split: prod.splits sum.splits)
  have a: "lookup (files w1) (dir @ ''/'' @ input_name @ ''.nii'') = None"
    using remove_if_present_gone[OF _ 1] not_root_file[of dir input_name "''nii''"] by simp
  have "lookup (files (snd (remove_if_present (dir @ ''/'' @ input_name @ ''_t.nii.gz'') w1)))
          (dir @ ''/'' @ input_name @ ''.nii'')
        = lookup (files w1) (dir @ ''/'' @ input_name @ ''.nii'')"
    by (rule remove_if_present_other) simp
  then have b: "lookup (files w') (dir @ ''/'' @ input_name @ ''.nii'') = None"
    using a 2 by simp
  have c: "lookup (files w') (dir @ ''/'' @ input_name @ ''_t.nii.gz'') = None"
    using remove_if_present_gone[OF _ 2] not_root_transform[of dir input_name "''t.nii.gz''"] by simp
  show ?thesis using b c by simp
qed

text \<open>Claim C1 (the retry budget is per item). The code keeps ONE counter \<^verbatim>\<open>__retries\<close> for
  the whole stage, set to 0 before the loop over the items and never reset. Here the
  stage \<^verbatim>\<open>affine_0\<close> runs over the items \<open>a\<close> and \<open>b\<close>: the engine fails twice on \<open>a\<close> and
  then succeeds, and fails once on \<open>b\<close>. The stage raises at that first failure of \<open>b\<close>:
  \<open>b\<close> is never retried (two retries were logged, both for \<open>a\<close>; every later call of the
  environment would have succeeded), and \<open>b\<close> has no output.\<close>

theorem retries_shared_across_items:
  "(case alignment_iteration ex_engine ex_args ''out/preprocessed'' ''affine_0'' ''in/a.nii''
           Affine False False
           \<lparr> files = staged_files,
             script = [Succeeds,
                       Succeeds, Raises,  Succeeds, Raises,  Succeeds, Succeeds, Succeeds,
                       Succeeds, Raises],
             logged = [] \<rparr> of
      (r, w) \<Rightarrow>
        (r, script w,
         lookup (files w) ''out/scratch/affine_0/a.nii'',
         lookup (files w) ''out/scratch/affine_0/b.nii'',
         length (filter (\<lambda>(l, m). m = ''Caught exception processing input %s, retrying'') (logged w)),
         hd (logged w)))
   = (Inl RuntimeError, [],
      Some (File (Nifti (vol 1 2))),
      None,
      2,
      (ERROR, ''Caught exception processing input %s, max retries reached''))"
  by code_simp

text \<open>Claim C2 (after two failed attempts and a successful third, the item's files are those
  of a single successful attempt). In a mirrored stage \<^verbatim>\<open>__clean_step_output\<close> is called
  with the stage's \<open>mirror\<close> flag and so removes only the \<^verbatim>\<open>_m\<close> names. Attempt 1 here
  fails while writing \<^verbatim>\<open>a.nii\<close> and leaves it truncated; the cleanup keeps it; attempt 2
  takes it for existing work and fails in the mirrored registration; attempt 3 succeeds.
  The item ends with the truncated \<^verbatim>\<open>a.nii\<close>, where a single successful attempt from the
  same state ends with the warped volume.\<close>

theorem mirrored_cleanup_keeps_partial_output:
  "(case process_item ex_engine (ex_stage True) ''out/preprocessed/a.nii'' 0 None
           \<lparr> files = staged_files, script = [Succeeds, Succeeds, RaisesPartial, Raises],
             logged = [] \<rparr> of
      (r, retries, moving, w) \<Rightarrow>
        (r, retries, script w,
         lookup (files w) ''out/scratch/affine_0/a.nii'',
         lookup (files w) ''out/scratch/affine_0/a_m.nii''))
   = (Inr (), 2, [], Some (File Truncated), Some (File (Nifti (vol 2 1))))
   \<and> (case process_item ex_engine (ex_stage True) ''out/preprocessed/a.nii'' 0 None
           \<lparr> files = staged_files, script = [], logged = [] \<rparr> of
      (r, retries, moving, w) \<Rightarrow>
        (r, retries,
         lookup (files w) ''out/scratch/affine_0/a.nii'',
         lookup (files w) ''out/scratch/affine_0/a_m.nii''))
   = (Inr (), 0, Some (File (Nifti (vol 1 2))), Some (File (Nifti (vol 2 1))))"
  by code_simp

text \<open>Claim C3 (with the non-mirrored output already on disk, only the mirrored work is
  done, on a flipped copy of that item). The mirrored branch flips the local variable
  \<^verbatim>\<open>moving\<close>, which is assigned only where the non-mirrored branch processes an item.
  First, a mirrored stage resumed after an interruption, with \<^verbatim>\<open>a.nii\<close> on disk and no
  \<^verbatim>\<open>a_m.nii\<close>: \<^verbatim>\<open>moving\<close> is unbound, each of the three attempts on \<open>a\<close> raises
  UnboundLocalError without calling the engine (the outcome scripted for the next call
  is still pending), and the stage aborts with no \<^verbatim>\<open>a_m.nii\<close>. Second, the stage resumed
  with \<^verbatim>\<open>b.nii\<close> on disk instead: \<open>a\<close> is processed first, \<^verbatim>\<open>moving\<close> still holds \<open>a\<close>
  when \<open>b\<close> is reached, and \<^verbatim>\<open>b_m.nii\<close> is the registration of the flipped \<open>a\<close> (voxels
  2, 1), not of the flipped \<open>b\<close> (voxels 5, 3).\<close>

theorem mirrored_resume_uses_unbound_or_stale_moving:
  "(case alignment_iteration ex_engine (ex_args\<lparr>mirror := True\<rparr>) ''out/preprocessed''
           ''affine_0'' ''in/a.nii'' Affine False True
           \<lparr> files = interrupted_files, script = [Succeeds, Raises], logged = [] \<rparr> of
      (r, w) \<Rightarrow>
        (r, script w, lookup (files w) ''out/scratch/affine_0/a_m.nii'',
         length (filter (\<lambda>(l, m). m = ''Caught exception processing input %s, retrying'') (logged w))))
   = (Inl UnboundLocalError, [Raises], None, 2)
   \<and> (case alignment_iteration ex_engine (ex_args\<lparr>mirror := True\<rparr>) ''out/preprocessed''
              ''affine_0'' ''in/a.nii'' Affine False True (quiet resumed_files) of
      (r, w) \<Rightarrow> (r, lookup (files w) ''out/scratch/affine_0/b_m.nii''))
   = (Inr (), Some (File (Nifti (vol 2 1))))"
  by code_simp

section \<open>The early return of the commands\<close>

text \<open>\<^verbatim>\<open>register\<close>: with the results directory present and no \<^verbatim>\<open>--force\<close>, the path
  logic logs a warning and returns early; the files are untouched.\<close>

lemma register_early_return:
  assumes "path_exists (files w) moving_path"
      and "path_exists (files w) (rstrip_slash results_dir_arg)"
  shows "register_path_logic moving_path results_dir_arg False w
         = (Inr True,
            w\<lparr>logged := (WARNING,
                 ''Results directory already exists. Run again with -f or --force to override'')
               # (INFO, ''Storing results in %s'') # logged w\<rparr>)"
  using assms by (simp add: register_path_logic_def logger_def Let_def)

text \<open>Claim C4 (an existing output directory without force or resume: a warning, an early
  return without error, the filesystem unchanged). In \<^verbatim>\<open>build_template\<close> the early
  \<^verbatim>\<open>return\<close> stands inside the \<^verbatim>\<open>try\<close> whose \<^verbatim>\<open>finally\<close> removes \<^verbatim>\<open>{output}/scratch\<close>.
  Run again on the directory a finished run left (no scratch directory), it logs the
  warning and then raises FileNotFoundError; run on the directory of an interrupted run,
  it returns normally after deleting that run's scratch directory and the aligned
  volume in it.\<close>

theorem build_template_early_return_runs_finally:
  "force ex_args = False \<and> preemptible ex_args = False
   \<and> path_exists finished_files (output ex_args)
   \<and> (case build_template ex_engine ex_args (quiet finished_files) of
        (r, w) \<Rightarrow> (r, hd (tl (logged w))))
     = (Inl FileNotFoundError,
        (WARNING, ''Results directory already exists. Run again with --force to override or --preemptible to resume''))
   \<and> path_exists interrupted_files (output ex_args)
   \<and> lookup interrupted_files ''out/scratch/affine_0/a.nii'' = Some (File (Nifti (vol 1 2)))
   \<and> (case build_template ex_engine ex_args (quiet interrupted_files) of
        (r, w) \<Rightarrow> (r, lookup (files w) ''out/scratch'', lookup (files w) ''out/scratch/affine_0/a.nii''))
     = (Inr (), None, None)"
  by code_simp

section \<open>The end of a template build\<close>

text \<open>Claim C9 (the last SyN template is moved to \<^verbatim>\<open>template.nii\<close>; with keep-intermediates
  a reference of the SAME name as the moved template is put back in \<^verbatim>\<open>templates/\<close>).
  The code names the link \<^verbatim>\<open>syn_{args.syn_steps}.nii\<close>, one past the template it moved,
  \<^verbatim>\<open>syn_{args.syn_steps - 1}.nii\<close>. A complete run with one SyN step and
  keep-intermediates ends with \<^verbatim>\<open>templates/syn_0.nii\<close> gone and the link at
  \<^verbatim>\<open>templates/syn_1.nii\<close>; the directories are retained and \<^verbatim>\<open>template.nii\<close> is in place.\<close>

theorem kept_template_link_is_off_by_one:
  "syn_steps ex_args = 1
   \<and> (case build_template ex_engine (ex_args\<lparr>keep_intermediates := True\<rparr>) (quiet in_files) of
        (r, w) \<Rightarrow>
          (r, lookup (files w) ''out/template.nii'' \<noteq> None,
           lookup (files w) ''out/templates/syn_0.nii'',
           lookup (files w) ''out/templates/syn_1.nii'',
           lookup (files w) ''out/preprocessed'', lookup (files w) ''out/templates''))
     = (Inr (), True, None, Some (Symlink ''out/template.nii''), Some Dir, Some Dir)"
  by code_simp

section \<open>Direct averaging\<close>








section \<open>The archive round trip\<close>





section \<open>Mirror-axis detection\<close>











section \<open>Symmetrizing the warp\<close>

lemma wf_ndarray5_lengths:
  assumes "wf_ndarray5 a" and "shape5 a = [B, X, Y, Z, C]"
  shows "length (elems5 a) = B"
    and "b < B \<Longrightarrow> length (elems5 a ! b) = X"
    and "b < B \<Longrightarrow> x < X \<Longrightarrow> length (elems5 a ! b ! x) = Y"
    and "b < B \<Longrightarrow> x < X \<Longrightarrow> y < Y \<Longrightarrow> length (elems5 a ! b ! x ! y) = Z"
    and "b < B \<Longrightarrow> x < X \<Longrightarrow> y < Y \<Longrightarrow> z < Z \<Longrightarrow> length (elems5 a ! b ! x ! y ! z) = C"
  using assms by (simp_all add: wf_ndarray5_def list_all_length)

text \<open>Claim C8. With mirror-symmetrization enabled, the warp the block leaves for the
  steps that apply and store it has, in the component along the mirror axis, the mean of
  the predicted warp and the NEGATED reflected warp, and in the two other components the
  mean of the predicted warp and the reflected warp; the reflection reverses the voxel
  index along the mirror axis (axis \<open>mirror_axis + 1\<close> of the five-dimensional array) and
  keeps the others (arithmetic over exact reals).\<close>

theorem symmetrize_warp_mean:
  assumes wf: "wf_ndarray5 warp" and sh: "shape5 warp = [B, X, Y, Z, 3]" and ax: "ax < 3"
  shows "\<exists>res. symmetrize_warp True (Some ax) warp = Inr res \<and> shape5 res = shape5 warp
           \<and> (\<forall>b<B. \<forall>x<X. \<forall>y<Y. \<forall>z<Z. \<forall>c<3.
                 elems5 res ! b ! x ! y ! z ! c =
                   (elems5 warp ! b ! x ! y ! z ! c
                    + (if c = ax
                       then - (elems5 warp ! b ! reflect ax 0 X x ! reflect ax 1 Y y
                                 ! reflect ax 2 Z z ! c)
                       else elems5 warp ! b ! reflect ax 0 X x ! reflect ax 1 Y y
                                 ! reflect ax 2 Z z ! c)) / 2)"
proof -
  note L = wf_ndarray5_lengths[OF wf sh]
  from ax consider "ax = 0" | "ax = 1" | "ax = 2" by linarith
  then show ?thesis
  proof cases
    case 1
    show ?thesis unfolding 1
      by (simp add: symmetrize_warp_def np_flip5_def np_mean2_def np_neg5_def
            assign_component_def sh L rev_nth reflect_def)
  next
    case 2
    show ?thesis unfolding 2
      by (simp add: symmetrize_warp_def np_flip5_def np_mean2_def np_neg5_def
            assign_component_def sh L rev_nth reflect_def)
  next
    case 3
    show ?thesis unfolding 3
      by (simp add: symmetrize_warp_def np_flip5_def np_mean2_def np_neg5_def
            assign_component_def sh L rev_nth reflect_def)
  qed
qed

theorem symmetrize_warp_mean_witness:
  "wf_ndarray5 ex_warp \<and> shape5 ex_warp = [1, 2, 1, 1, 3] \<and> (0::nat) < 3
   \<and> symmetrize_warp True (Some 0) ex_warp
       = Inr \<lparr> shape5 = [1, 2, 1, 1, 3], elems5 = [[[[[- 2, 5, 8]]], [[[2, 5, 8]]]]] \<rparr>
   \<and> (\<exists>res. symmetrize_warp True (Some 0) ex_warp = Inr res
         \<and> elems5 res ! 0 ! 1 ! 0 ! 0 ! 0
             = (elems5 ex_warp ! 0 ! 1 ! 0 ! 0 ! 0 + - (elems5 ex_warp ! 0 ! 0 ! 0 ! 0 ! 0)) / 2
         \<and> elems5 res ! 0 ! 1 ! 0 ! 0 ! 2
             = (elems5 ex_warp ! 0 ! 1 ! 0 ! 0 ! 2 + elems5 ex_warp ! 0 ! 0 ! 0 ! 0 ! 2) / 2)"
proof -
  have w: "wf_ndarray5 ex_warp" by (simp add: wf_ndarray5_def ex_warp_def)
  have s: "shape5 ex_warp = [1, 2, 1, 1, 3]" by (simp add: ex_warp_def)
  have e: "symmetrize_warp True (Some 0) ex_warp
       = Inr \<lparr> shape5 = [1, 2, 1, 1, 3], elems5 = [[[[[- 2, 5, 8]]], [[[2, 5, 8]]]]] \<rparr>"
    by (simp add: symmetrize_warp_def np_flip5_def np_mean2_def np_neg5_def
          assign_component_def ex_warp_def)
  from symmetrize_warp_mean[OF w s, of 0] obtain res where
    r: "symmetrize_warp True (Some 0) ex_warp = Inr res"
    and p: "\<forall>b<1. \<forall>x<2. \<forall>y<1. \<forall>z<1. \<forall>c<3.
                 elems5 res ! b ! x ! y ! z ! c =
                   (elems5 ex_warp ! b ! x ! y ! z ! c
                    + (if c = 0
                       then - (elems5 ex_warp ! b ! reflect 0 0 2 x ! reflect 0 1 1 y
                                 ! reflect 0 2 1 z ! c)
                       else elems5 ex_warp ! b ! reflect 0 0 2 x ! reflect 0 1 1 y
                                 ! reflect 0 2 1 z ! c)) / 2"
    by auto
  have p0: "elems5 res ! 0 ! 1 ! 0 ! 0 ! 0
             = (elems5 ex_warp ! 0 ! 1 ! 0 ! 0 ! 0 + - (elems5 ex_warp ! 0 ! 0 ! 0 ! 0 ! 0)) / 2"
    using p[rule_format, of 0 1 0 0 0] by (simp add: reflect_def)
  have p2: "elems5 res ! 0 ! 1 ! 0 ! 0 ! 2
             = (elems5 ex_warp ! 0 ! 1 ! 0 ! 0 ! 2 + elems5 ex_warp ! 0 ! 0 ! 0 ! 0 ! 2) / 2"
    using p[rule_format, of 0 1 0 0 2] by (simp add: reflect_def)
  have z: "(0::nat) < 3" by simp
  show ?thesis using w s z e r p0 p2 by blast
qed

section \<open>The unbound variable, the early return and the link name, for any input\<close>

text \<open>The mirrored branch with \<^verbatim>\<open>moving\<close> unbound and no mirrored output on disk: it
  raises before any call of the engine and changes nothing but the log.\<close>

lemma attempt_mirror_unbound:
  assumes "\<not> step_output_exists (name_of input_path) (step_dir st) (transform_avg st) True (files w)"
  shows "attempt_mirror eng st input_path None w
         = (Inl UnboundLocalError, logger INFO ''%s: processing input %s mirror'' w)"
  using assms by (simp add: attempt_mirror_def Let_def)

text \<open>The early return of \<^verbatim>\<open>build_template\<close>, for any arguments and any state: what
  happens is what \<^verbatim>\<open>shutil.rmtree\<close> of the scratch directory does.\<close>

lemma build_template_early_return:
  assumes "collect_inputs (files w) (input a) = Inr input_paths"
      and "reference_image a = None"
      and "path_exists (files w) (output a)"
      and "\<not> force a" and "\<not> preemptible a"
  shows "build_template eng a w =
     (let w3 = logger INFO ''Exiting, cleaning scratch''
                 (logger WARNING
                    ''Results directory already exists. Run again with --force to override or --preemptible to resume''
                    (logger DEBUG ''Parsed input files: %s'' w))
      in case rmtree (output a @ ''/scratch'') (files w) of
           Inl e \<Rightarrow> (Inl e, w3)
         | Inr fs' \<Rightarrow> (Inr (), w3\<lparr>files := fs'\<rparr>))"
  using assms
  by (simp add: build_template_def build_template_try_def logger_def Let_def split: sum.splits)

text \<open>The link that keep-intermediates puts back is named after \<^verbatim>\<open>args.syn_steps\<close>.\<close>

lemma lookup_update_same: "\<not> is_root p \<Longrightarrow> lookup (AList.update p v fs) p = Some v"
  by (simp add: lookup_def update_conv')

lemma cleaning_up_link_name:
  assumes "cleaning_up a w = (Inr u, w')" and "keep_intermediates a"
  shows "lookup (files w') (output a @ ''/templates/syn_'' @ str_int (syn_steps a) @ ''.nii'')
         = Some (Symlink (output a @ ''/template.nii''))"
proof -
  have nr: "\<not> is_root (output a @ ''/templates/syn_'' @ str_int (syn_steps a) @ ''.nii'')"
    by (simp add: is_root_def)
  show ?thesis
    using assms nr
    by (auto simp: cleaning_up_def Let_def os_symlink_def logger_def lookup_update_same
             split: sum.splits if_splits)
qed

end
